theory Spec2Isabelle
  imports Main
begin

section \<open>JavaScript values held by the spin box\<close>

text \<open>
  The \<open>value\<close> property of the spin box only ever receives numbers from the code of the
  component itself: \<open>parseInt\<close> returns an integer or \<open>NaN\<close>, and \<open>++\<close>/\<open>--\<close> produce numbers.
  \<open>Num n\<close> is the number with the integer value \<open>n\<close>; \<open>+0\<close> and \<open>-0\<close> are both \<open>Num 0\<close>: they
  are \<open>===\<close> and print alike. The integers are unbounded, so the model is that of the
  language for magnitudes up to \<open>2^53\<close>. Beyond, the language rounds to the nearest double
  where \<open>parseInt\<close>, \<open>increment\<close> and \<open>decrement\<close> below keep the exact integer (at \<open>2^53\<close> the
  language's \<open>x++\<close> gives \<open>2^53\<close> again), and it prints the shortest digits that identify the
  double, with an exponent from \<open>1e21\<close> on, where \<open>ToString\<close> below prints every digit.
\<close>

datatype jsval = Num int | NaN

text \<open>The operators \<open>===\<close> and \<open>!==\<close> on numbers: \<open>NaN\<close> is not equal to anything.\<close>

fun strict_eq :: "jsval \<Rightarrow> jsval \<Rightarrow> bool" where
  "strict_eq (Num a) (Num b) = (a = b)"
| "strict_eq _ _ = False"

definition strict_neq :: "jsval \<Rightarrow> jsval \<Rightarrow> bool" where
  "strict_neq a b = (\<not> strict_eq a b)"

text \<open>\<open>x++\<close> and \<open>x--\<close> compute \<open>x + 1\<close> and \<open>x - 1\<close>; arithmetic on \<open>NaN\<close> is \<open>NaN\<close>.\<close>

fun increment :: "jsval \<Rightarrow> jsval" where
  "increment (Num n) = Num (n + 1)"
| "increment NaN = NaN"

fun decrement :: "jsval \<Rightarrow> jsval" where
  "decrement (Num n) = Num (n - 1)"
| "decrement NaN = NaN"

subsection \<open>Number to string\<close>

fun digits :: "nat \<Rightarrow> string" where
  "digits n = (if n < 10 then [''0123456789'' ! n]
               else digits (n div 10) @ [''0123456789'' ! (n mod 10)])"

declare digits.simps [simp del]

definition ToString :: "jsval \<Rightarrow> string" where
  "ToString v = (case v of
      NaN \<Rightarrow> ''NaN''
    | Num n \<Rightarrow> if n < 0 then CHR ''-'' # digits (nat (- n)) else digits (nat n))"

subsection \<open>The builtin \<open>parseInt\<close> with no radix argument\<close>

definition is_space :: "char \<Rightarrow> bool" where
  "is_space c = (c \<in> set [CHR 0x09, CHR 0x0A, CHR 0x0B, CHR 0x0C, CHR 0x0D, CHR '' ''])"

definition digit_value :: "char \<Rightarrow> nat option" where
  "digit_value c = (let k = (of_char c :: nat) in
     if 48 \<le> k \<and> k \<le> 57 then Some (k - 48)
     else if 97 \<le> k \<and> k \<le> 122 then Some (k - 87)
     else if 65 \<le> k \<and> k \<le> 90 then Some (k - 55)
     else None)"

definition radix_digit :: "nat \<Rightarrow> char \<Rightarrow> nat option" where
  "radix_digit R c = (case digit_value c of
      None \<Rightarrow> None
    | Some d \<Rightarrow> if d < R then Some d else None)"

text \<open>
  Leading white space is skipped, a sign is read, a \<open>0x\<close> prefix selects radix 16, and the
  longest prefix of digits is the number; with no digit the result is \<open>NaN\<close>. Characters
  are bytes here, so only the white space of ASCII is recognised.
\<close>

definition parseInt :: "string \<Rightarrow> jsval" where
  "parseInt inputString =
    (let S = dropWhile is_space inputString;
         sign = (if S \<noteq> [] \<and> hd S = CHR ''-'' then - 1 else 1 :: int);
         S1 = (if S \<noteq> [] \<and> (hd S = CHR ''+'' \<or> hd S = CHR ''-'') then tl S else S);
         hex = (take 2 S1 = ''0x'' \<or> take 2 S1 = ''0X'');
         R = (if hex then 16 else 10);
         S2 = (if hex then drop 2 S1 else S1);
         Z = takeWhile (\<lambda>c. radix_digit R c \<noteq> None) S2
     in if Z = [] then NaN
        else Num (sign * int (foldl (\<lambda>a c. case radix_digit R c of
                                             None \<Rightarrow> a
                                           | Some d \<Rightarrow> a * R + d) 0 Z)))"

text \<open>An attribute value is a string, or \<open>null\<close> when the attribute was removed;
  \<open>parseInt\<close> converts its argument to a string first.\<close>

definition attr_string :: "string option \<Rightarrow> string" where
  "attr_string a = (case a of None \<Rightarrow> ''null'' | Some s \<Rightarrow> s)"

section \<open>The document, elements and shadow trees\<close>

text \<open>The three closures that \<open>componentFirstRender\<close> registers.\<close>

datatype listener = InputListener | UpListener | DownListener

text \<open>An element of a template or of a shadow tree: its \<open>id\<close> (empty when it has none),
  its \<open>value\<close> property, and the event listeners added to it, with their event types.\<close>

record element =
  elem_id :: string
  elem_value :: string
  listeners :: "(string \<times> listener) list"

type_synonym fragment = "element list"

text \<open>What a template lookup can yield.\<close>

datatype jsref = Undefined | Null | NotATemplate | Template fragment

text \<open>\<open>document.getElementById\<close>, for the lookup of a template. The page does not
  change during the life of an instance.\<close>

type_synonym document = "string \<Rightarrow> jsref"

datatype error = ReferenceError string | TypeError string | NotSupportedError

text \<open>Property keys: a name, or a symbol (given by its description).\<close>

datatype key = PropName string | PropSymbol string

text \<open>The host object of the mixin. \<open>attachShadow_calls\<close> counts the shadow roots created.\<close>

record host =
  shadowRoot :: "fragment option"
  attachShadow_calls :: nat

definition attachShadow :: "'a host_scheme \<Rightarrow> error option \<times> 'a host_scheme" where
  "attachShadow this = (case shadowRoot this of
      None \<Rightarrow> (None, this\<lparr>shadowRoot := Some [], attachShadow_calls := attachShadow_calls this + 1\<rparr>)
    | Some r \<Rightarrow> (Some NotSupportedError, this))"

text \<open>A deep copy of a template's content; listeners are not copied.\<close>

definition importNode :: "fragment \<Rightarrow> fragment" where
  "importNode content = map (\<lambda>e. e\<lparr>listeners := []\<rparr>) content"

definition appendChild :: "fragment \<Rightarrow> 'a host_scheme \<Rightarrow> 'a host_scheme" where
  "appendChild clone this = this\<lparr>shadowRoot := map_option (\<lambda>root. root @ clone) (shadowRoot this)\<rparr>"

definition getElementById :: "fragment \<Rightarrow> string \<Rightarrow> element option" where
  "getElementById root i = find (\<lambda>e. elem_id e = i) root"

fun update_first :: "string \<Rightarrow> (element \<Rightarrow> element) \<Rightarrow> fragment \<Rightarrow> fragment" where
  "update_first i f [] = []"
| "update_first i f (e # es) = (if elem_id e = i then f e # es else e # update_first i f es)"

section \<open>ShadowHelperMixin\<close>

text \<open>
  The mixin is applied to a base class; the property lookup of the resulting class is the
  parameter \<open>get\<close>. Version 006 reads the public property \<open>template\<close> of the host.
  A method returns the exception thrown, if any, together with the host as the method left it.
\<close>

definition renderHelper ::
  "('a host_scheme \<Rightarrow> key \<Rightarrow> jsref) \<Rightarrow> 'a host_scheme \<Rightarrow> (error + bool) \<times> 'a host_scheme" where
  "renderHelper get this =
    (let firstRender = (shadowRoot this = None) in
     if firstRender then
       (case attachShadow this of
          (Some e, this1) \<Rightarrow> (Inl e, this1)
        | (None, this1) \<Rightarrow>
            (case get this1 (PropName ''template'') of
               Template content \<Rightarrow> (Inr firstRender, appendChild (importNode content) this1)
             | Null \<Rightarrow> (Inl (TypeError ''templateElement is null''), this1)
             | Undefined \<Rightarrow> (Inl (TypeError ''templateElement is undefined''), this1)
             | NotATemplate \<Rightarrow> (Inl (TypeError ''importNode: not a Node''), this1)))
     else (Inr firstRender, this))"

text \<open>Version 007 declares the symbol \<open>template\<close> and reads the property it names.\<close>

definition template :: key where
  "template = PropSymbol ''template''"

definition renderHelper_007 ::
  "('a host_scheme \<Rightarrow> key \<Rightarrow> jsref) \<Rightarrow> 'a host_scheme \<Rightarrow> (error + bool) \<times> 'a host_scheme" where
  "renderHelper_007 get this =
    (let firstRender = (shadowRoot this = None) in
     if firstRender then
       (case attachShadow this of
          (Some e, this1) \<Rightarrow> (Inl e, this1)
        | (None, this1) \<Rightarrow>
            (case get this1 template of
               Template content \<Rightarrow> (Inr firstRender, appendChild (importNode content) this1)
             | Null \<Rightarrow> (Inl (TypeError ''templateElement is null''), this1)
             | Undefined \<Rightarrow> (Inl (TypeError ''templateElement is undefined''), this1)
             | NotATemplate \<Rightarrow> (Inl (TypeError ''importNode: not a Node''), this1)))
     else (Inr firstRender, this))"

section \<open>SpinBox (version 006)\<close>

text \<open>
  \<open>value_field\<close> is the member \<open>_value\<close>. The three counters record how often \<open>render\<close>,
  \<open>componentFirstRender\<close> and the final assignment of \<open>render\<close> (the projection of the
  value onto the input element) have run.
\<close>

record SpinBox = host +
  value_field :: jsval
  render_calls :: nat
  componentFirstRender_calls :: nat
  projections :: nat

definition constructor :: SpinBox where
  "constructor = \<lparr>shadowRoot = None, attachShadow_calls = 0, value_field = Num 0,
     render_calls = 0, componentFirstRender_calls = 0, projections = 0\<rparr>"

text \<open>The getter \<open>template\<close> is the only property the class adds for the mixin.\<close>

definition SpinBox_get :: "document \<Rightarrow> SpinBox \<Rightarrow> key \<Rightarrow> jsref" where
  "SpinBox_get doc this k =
     (if k = PropName ''template'' then doc ''spinBoxTemplate'' else Undefined)"

definition get_value :: "SpinBox \<Rightarrow> jsval" where
  "get_value this = value_field this"

text \<open>\<open>this.shadowRoot.getElementById(i).addEventListener(type, l)\<close>.\<close>

definition addEventListener ::
  "string \<Rightarrow> string \<Rightarrow> listener \<Rightarrow> SpinBox \<Rightarrow> error option \<times> SpinBox" where
  "addEventListener i type l this = (case shadowRoot this of
      None \<Rightarrow> (Some (TypeError ''shadowRoot is null''), this)
    | Some root \<Rightarrow> (case getElementById root i of
        None \<Rightarrow> (Some (TypeError ''element is null''), this)
      | Some e \<Rightarrow> (None, this\<lparr>shadowRoot :=
          Some (update_first i (\<lambda>e. e\<lparr>listeners := listeners e @ [(type, l)]\<rparr>) root)\<rparr>)))"

definition componentFirstRender :: "SpinBox \<Rightarrow> error option \<times> SpinBox" where
  "componentFirstRender this =
    (let this0 = this\<lparr>componentFirstRender_calls := componentFirstRender_calls this + 1\<rparr> in
     case addEventListener ''input'' ''input'' InputListener this0 of
       (Some e, t) \<Rightarrow> (Some e, t)
     | (None, t1) \<Rightarrow>
         (case addEventListener ''upButton'' ''mousedown'' UpListener t1 of
            (Some e, t) \<Rightarrow> (Some e, t)
          | (None, t2) \<Rightarrow> addEventListener ''downButton'' ''mousedown'' DownListener t2))"

text \<open>The first part of \<open>render\<close>: \<open>renderHelper\<close>, then the one-time hook on a first render.\<close>

definition render_first :: "document \<Rightarrow> SpinBox \<Rightarrow> error option \<times> SpinBox" where
  "render_first doc this =
    (case renderHelper (SpinBox_get doc) this of
       (Inl e, t) \<Rightarrow> (Some e, t)
     | (Inr firstRender, t1) \<Rightarrow>
         (if firstRender then componentFirstRender t1 else (None, t1)))"

text \<open>The last statement of \<open>render\<close>:
  \<open>this.shadowRoot.getElementById('input').value = this.value\<close>.\<close>

definition projection :: "SpinBox \<Rightarrow> error option \<times> SpinBox" where
  "projection this = (case shadowRoot this of
      None \<Rightarrow> (Some (TypeError ''shadowRoot is null''), this)
    | Some root \<Rightarrow> (case getElementById root ''input'' of
        None \<Rightarrow> (Some (TypeError ''element is null''), this)
      | Some e \<Rightarrow> (None, this\<lparr>shadowRoot :=
            Some (update_first ''input'' (\<lambda>e. e\<lparr>elem_value := ToString (get_value this)\<rparr>) root),
          projections := projections this + 1\<rparr>)))"

definition render :: "document \<Rightarrow> SpinBox \<Rightarrow> error option \<times> SpinBox" where
  "render doc this =
    (case render_first doc (this\<lparr>render_calls := render_calls this + 1\<rparr>) of
       (Some e, t) \<Rightarrow> (Some e, t)
     | (None, t2) \<Rightarrow> projection t2)"

definition set_value :: "document \<Rightarrow> jsval \<Rightarrow> SpinBox \<Rightarrow> error option \<times> SpinBox" where
  "set_value doc v this =
    (if strict_neq v (value_field this) then render doc (this\<lparr>value_field := v\<rparr>)
     else (None, this))"

definition connectedCallback :: "document \<Rightarrow> SpinBox \<Rightarrow> error option \<times> SpinBox" where
  "connectedCallback doc this = render doc this"

definition attributeChangedCallback ::
  "document \<Rightarrow> string \<Rightarrow> string option \<Rightarrow> string option \<Rightarrow> SpinBox \<Rightarrow> error option \<times> SpinBox" where
  "attributeChangedCallback doc name oldValue newValue this =
    (if name = ''value'' then set_value doc (parseInt (attr_string newValue)) this
     else (None, this))"

subsection \<open>The listeners and the events of the page\<close>

text \<open>
  The listener of the input element is \<open>this.value = inputElem.value\<close>. No scope of the
  module binds \<open>inputElem\<close> (the constant of \<open>componentFirstRender\<close> is \<open>inputElement\<close>),
  so evaluating the right-hand side throws before the setter is reached.
\<close>

fun run_listener :: "document \<Rightarrow> listener \<Rightarrow> SpinBox \<Rightarrow> error option \<times> SpinBox" where
  "run_listener doc InputListener this = (Some (ReferenceError ''inputElem is not defined''), this)"
| "run_listener doc UpListener this = set_value doc (increment (get_value this)) this"
| "run_listener doc DownListener this = set_value doc (decrement (get_value this)) this"

text \<open>An exception of one listener is reported and the next listener still runs.\<close>

fun run_listeners :: "document \<Rightarrow> listener list \<Rightarrow> SpinBox \<Rightarrow> error option list \<times> SpinBox" where
  "run_listeners doc [] this = ([], this)"
| "run_listeners doc (l # ls) this =
    (case run_listener doc l this of
       (r, t) \<Rightarrow> (case run_listeners doc ls t of (rs, t') \<Rightarrow> (r # rs, t')))"

definition dispatchEvent ::
  "document \<Rightarrow> string \<Rightarrow> string \<Rightarrow> SpinBox \<Rightarrow> error option list \<times> SpinBox" where
  "dispatchEvent doc target type this = (case shadowRoot this of
      None \<Rightarrow> ([], this)
    | Some root \<Rightarrow> (case getElementById root target of
        None \<Rightarrow> ([], this)
      | Some e \<Rightarrow> run_listeners doc (map snd (filter (\<lambda>p. fst p = type) (listeners e))) this))"

text \<open>Typing into the input element: the browser stores the text in the element and
  then fires \<open>input\<close> at it.\<close>

definition text_entry :: "document \<Rightarrow> string \<Rightarrow> SpinBox \<Rightarrow> error option list \<times> SpinBox" where
  "text_entry doc entered this = (case shadowRoot this of
      None \<Rightarrow> ([], this)
    | Some root \<Rightarrow> dispatchEvent doc ''input'' ''input''
        (this\<lparr>shadowRoot := Some (update_first ''input'' (\<lambda>e. e\<lparr>elem_value := entered\<rparr>) root)\<rparr>))"

text \<open>Everything that can happen to an instance after its construction.\<close>

datatype event =
    Connected
  | AttributeChanged string "string option" "string option"
  | SetValue jsval
  | Render
  | TextEntry string
  | MouseDown string

fun step :: "document \<Rightarrow> event \<Rightarrow> SpinBox \<Rightarrow> SpinBox" where
  "step doc Connected this = snd (connectedCallback doc this)"
| "step doc (AttributeChanged name oldValue newValue) this =
     snd (attributeChangedCallback doc name oldValue newValue this)"
| "step doc (SetValue v) this = snd (set_value doc v this)"
| "step doc Render this = snd (render doc this)"
| "step doc (TextEntry entered) this = snd (text_entry doc entered this)"
| "step doc (MouseDown target) this = snd (dispatchEvent doc target ''mousedown'' this)"

definition run :: "document \<Rightarrow> event list \<Rightarrow> SpinBox \<Rightarrow> SpinBox" where
  "run doc evs this = fold (step doc) evs this"

text \<open>The page of the tutorial: one template with a style sheet, the input element and
  the two buttons.\<close>

definition spinBoxTemplate :: fragment where
  "spinBoxTemplate =
    [\<lparr>elem_id = '''', elem_value = '''', listeners = []\<rparr>,
     \<lparr>elem_id = ''input'', elem_value = '''', listeners = []\<rparr>,
     \<lparr>elem_id = ''upButton'', elem_value = '''', listeners = []\<rparr>,
     \<lparr>elem_id = ''downButton'', elem_value = '''', listeners = []\<rparr>]"

definition index_html :: document where
  "index_html i = (if i = ''spinBoxTemplate'' then Template spinBoxTemplate else Null)"

text \<open>The text shown by the input element, when there is one.\<close>

definition display :: "SpinBox \<Rightarrow> string option" where
  "display this = (case shadowRoot this of
      None \<Rightarrow> None
    | Some root \<Rightarrow> map_option elem_value (getElementById root ''input''))"

section \<open>Notions used in the statements\<close>

text \<open>The getter \<open>[template]\<close> of the spin box of version 007, which names its template
  by the symbol of the mixin.\<close>

definition SpinBox_get_007 :: "document \<Rightarrow> SpinBox \<Rightarrow> key \<Rightarrow> jsref" where
  "SpinBox_get_007 doc this k = (if k = template then doc ''spinBoxTemplate'' else Undefined)"

text \<open>The shadow tree of the tutorial's page once it is wired: every interactive element
  carries its one listener, and the input element shows \<open>shown\<close>.\<close>

definition rendered_tree :: "string \<Rightarrow> fragment" where
  "rendered_tree shown =
    [\<lparr>elem_id = '''', elem_value = '''', listeners = []\<rparr>,
     \<lparr>elem_id = ''input'', elem_value = shown, listeners = [(''input'', InputListener)]\<rparr>,
     \<lparr>elem_id = ''upButton'', elem_value = '''', listeners = [(''mousedown'', UpListener)]\<rparr>,
     \<lparr>elem_id = ''downButton'', elem_value = '''', listeners = [(''mousedown'', DownListener)]\<rparr>]"

text \<open>\<open>n\<close> calls of a method in sequence, with the list of what they returned.\<close>

fun calls :: "('h \<Rightarrow> 'r \<times> 'h) \<Rightarrow> nat \<Rightarrow> 'h \<Rightarrow> 'r list \<times> 'h" where
  "calls f 0 h = ([], h)"
| "calls f (Suc n) h =
    (case f h of (r, h1) \<Rightarrow> (case calls f n h1 of (rs, h2) \<Rightarrow> (r # rs, h2)))"

text \<open>\<open>n\<close> calls of \<open>render\<close> in sequence; an exception of one call does not prevent the
  next call.\<close>

fun render_times :: "document \<Rightarrow> nat \<Rightarrow> SpinBox \<Rightarrow> SpinBox" where
  "render_times doc 0 this = this"
| "render_times doc (Suc n) this = render_times doc n (snd (render doc this))"

text \<open>How often \<open>componentFirstRender\<close> runs on a page: once when the page has the
  template, never when the first \<open>renderHelper\<close> throws for want of it.\<close>

definition wirings :: "document \<Rightarrow> nat" where
  "wirings doc = (case doc ''spinBoxTemplate'' of Template c \<Rightarrow> 1 | _ \<Rightarrow> 0)"

text \<open>The invariant of an instance: the counters against the presence of the shadow root.\<close>

definition counted :: "document \<Rightarrow> SpinBox \<Rightarrow> bool" where
  "counted doc s =
    (if shadowRoot s = None
     then attachShadow_calls s = 0 \<and> componentFirstRender_calls s = 0 \<and> render_calls s = 0
     else attachShadow_calls s = 1 \<and> componentFirstRender_calls s = wirings doc \<and>
          1 \<le> render_calls s)"

text \<open>On the tutorial's page a shadow root, once there, is always the wired tree.\<close>

definition shaped :: "SpinBox \<Rightarrow> bool" where
  "shaped s = (case shadowRoot s of None \<Rightarrow> True | Some root \<Rightarrow> \<exists>x. root = rendered_tree x)"

section \<open>Evaluation of the builtins\<close>

lemma parseInt_abc: "parseInt ''abc'' = NaN"
  by (simp add: parseInt_def is_space_def radix_digit_def digit_value_def)

lemma parseInt_7: "parseInt ''7'' = Num 7"
  by (simp add: parseInt_def is_space_def radix_digit_def digit_value_def)

lemma parseInt_0: "parseInt ''0'' = Num 0"
  by (simp add: parseInt_def is_space_def radix_digit_def digit_value_def)

lemma strict_eq_Num: "strict_eq (Num n) w = (w = Num n)"
  by (cases w) auto

section \<open>What each method changes\<close>

lemma renderHelper_present:
  "shadowRoot this = Some r \<Longrightarrow> renderHelper g this = (Inr False, this)"
  by (simp add: renderHelper_def)

lemma renderHelper_absent:
  assumes "shadowRoot this = None" and "renderHelper g this = (r, t)"
  shows "shadowRoot t \<noteq> None" and "attachShadow_calls t = attachShadow_calls this + 1"
    and "r \<noteq> Inr False"
    and "(\<exists>c. g (this\<lparr>shadowRoot := Some [], attachShadow_calls := attachShadow_calls this + 1\<rparr>) (PropName ''template'') = Template c) = (r = Inr True)"
  using assms
  by (auto simp: renderHelper_def attachShadow_def appendChild_def split: jsref.splits)

lemma renderHelper_populates:
  "shadowRoot this = None \<Longrightarrow>
   get (this\<lparr>shadowRoot := Some [], attachShadow_calls := attachShadow_calls this + 1\<rparr>)
     (PropName ''template'') = Template content \<Longrightarrow>
   renderHelper get this =
     (Inr True, this\<lparr>shadowRoot := Some (importNode content),
        attachShadow_calls := attachShadow_calls this + 1\<rparr>)"
  by (simp add: renderHelper_def attachShadow_def appendChild_def)

lemma addEventListener_result:
  "addEventListener i ty l s = (r, t) \<Longrightarrow>
     attachShadow_calls t = attachShadow_calls s \<and> value_field t = value_field s \<and>
     render_calls t = render_calls s \<and>
     componentFirstRender_calls t = componentFirstRender_calls s \<and>
     projections t = projections s \<and> (shadowRoot t = None) = (shadowRoot s = None) \<and>
     (shadowRoot s = None \<longrightarrow> r = Some (TypeError ''shadowRoot is null'')) \<and>
     (shadowRoot s \<noteq> None \<longrightarrow> r \<noteq> Some (TypeError ''shadowRoot is null''))"
  by (auto simp: addEventListener_def split: option.splits)

lemma componentFirstRender_result:
  "componentFirstRender s = (r, t) \<Longrightarrow>
     attachShadow_calls t = attachShadow_calls s \<and> value_field t = value_field s \<and>
     render_calls t = render_calls s \<and>
     componentFirstRender_calls t = componentFirstRender_calls s + 1 \<and>
     projections t = projections s \<and> (shadowRoot t = None) = (shadowRoot s = None) \<and>
     (shadowRoot s \<noteq> None \<longrightarrow> r \<noteq> Some (TypeError ''shadowRoot is null''))"
  apply (simp add: componentFirstRender_def Let_def split: prod.splits option.splits)
  apply (auto dest!: addEventListener_result)
  done

lemma projection_result:
  "projection s = (r, t) \<Longrightarrow>
     attachShadow_calls t = attachShadow_calls s \<and> value_field t = value_field s \<and>
     render_calls t = render_calls s \<and>
     componentFirstRender_calls t = componentFirstRender_calls s \<and>
     (shadowRoot t = None) = (shadowRoot s = None) \<and>
     (shadowRoot s \<noteq> None \<longrightarrow> r \<noteq> Some (TypeError ''shadowRoot is null''))"
  by (auto simp: projection_def split: option.splits)

lemma renderHelper_fields:
  "renderHelper g s = (r, t) \<Longrightarrow>
     value_field t = value_field s \<and> render_calls t = render_calls s \<and>
     componentFirstRender_calls t = componentFirstRender_calls s \<and>
     projections t = projections s"
  by (auto simp: renderHelper_def attachShadow_def appendChild_def Let_def
      split: jsref.splits option.splits if_splits)

lemma render_first_result:
  assumes "render_first doc s = (r, t)"
  shows "value_field t = value_field s" and "render_calls t = render_calls s"
    and "projections t = projections s" and "shadowRoot t \<noteq> None"
    and "r \<noteq> Some (TypeError ''shadowRoot is null'')"
    and "shadowRoot s \<noteq> None \<Longrightarrow> t = s"
    and "shadowRoot s = None \<Longrightarrow> attachShadow_calls t = attachShadow_calls s + 1"
    and "shadowRoot s = None \<Longrightarrow>
          componentFirstRender_calls t = componentFirstRender_calls s +
            (case doc ''spinBoxTemplate'' of Template c \<Rightarrow> 1 | _ \<Rightarrow> 0)"
proof -
  obtain r1 t1 where h: "renderHelper (SpinBox_get doc) s = (r1, t1)"
    by (cases "renderHelper (SpinBox_get doc) s")
  note f = renderHelper_fields [OF h]
  show "value_field t = value_field s" "render_calls t = render_calls s"
    "projections t = projections s"
    using assms h f
    by (auto simp: render_first_def split: sum.splits if_splits dest!: componentFirstRender_result)
  show "shadowRoot s \<noteq> None \<Longrightarrow> t = s"
    using assms by (auto simp: render_first_def renderHelper_present)
  show "shadowRoot t \<noteq> None"
  proof (cases "shadowRoot s")
    case None
    from renderHelper_absent(1) [OF None h] show ?thesis
      using assms h
      by (auto simp: render_first_def split: sum.splits if_splits dest!: componentFirstRender_result)
  next
    case (Some a)
    then show ?thesis using assms by (auto simp: render_first_def renderHelper_present)
  qed
  show "r \<noteq> Some (TypeError ''shadowRoot is null'')"
  proof (cases "shadowRoot s")
    case None
    from renderHelper_absent(1) [OF None h] show ?thesis
      using assms h None
      by (auto simp: render_first_def renderHelper_def attachShadow_def
          split: sum.splits if_splits jsref.splits dest!: componentFirstRender_result)
  next
    case (Some a)
    then show ?thesis using assms by (auto simp: render_first_def renderHelper_present)
  qed
  show "shadowRoot s = None \<Longrightarrow> attachShadow_calls t = attachShadow_calls s + 1"
    using assms h renderHelper_absent(2) [OF _ h]
    by (auto simp: render_first_def split: sum.splits if_splits dest!: componentFirstRender_result)
  show "shadowRoot s = None \<Longrightarrow>
          componentFirstRender_calls t = componentFirstRender_calls s +
            (case doc ''spinBoxTemplate'' of Template c \<Rightarrow> 1 | _ \<Rightarrow> 0)"
    using assms h f renderHelper_absent(3,4) [OF _ h]
    by (auto simp: render_first_def SpinBox_get_def split: sum.splits if_splits jsref.splits
        dest!: componentFirstRender_result)
qed

lemma render_result:
  assumes "render doc s = (r, t)"
  shows "value_field t = value_field s" and "render_calls t = render_calls s + 1"
    and "shadowRoot t \<noteq> None" and "r \<noteq> Some (TypeError ''shadowRoot is null'')"
    and "attachShadow_calls t =
          (if shadowRoot s = None then attachShadow_calls s + 1 else attachShadow_calls s)"
    and "componentFirstRender_calls t =
          (if shadowRoot s = None then componentFirstRender_calls s + wirings doc
           else componentFirstRender_calls s)"
proof -
  let ?s = "s\<lparr>render_calls := render_calls s + 1\<rparr>"
  obtain r1 t1 where h: "render_first doc ?s = (r1, t1)"
    by (cases "render_first doc ?s")
  note f = render_first_result [OF h]
  have p: "r1 = None \<Longrightarrow> projection t1 = (r, t)" and q: "r1 \<noteq> None \<Longrightarrow> r = r1 \<and> t = t1"
    using assms h by (auto simp: render_def)
  show "value_field t = value_field s" "render_calls t = render_calls s + 1"
    "shadowRoot t \<noteq> None" "r \<noteq> Some (TypeError ''shadowRoot is null'')"
    using f(1-5) p q by (cases r1; auto dest!: projection_result)+
  show "attachShadow_calls t =
          (if shadowRoot s = None then attachShadow_calls s + 1 else attachShadow_calls s)"
    using f(6,7) p q by (cases r1; cases "shadowRoot s"; auto dest!: projection_result)
  show "componentFirstRender_calls t =
          (if shadowRoot s = None then componentFirstRender_calls s + wirings doc
           else componentFirstRender_calls s)"
    using f(6,8) p q
    by (cases r1; cases "shadowRoot s"; auto simp: wirings_def dest!: projection_result)
qed

lemma set_value_changed:
  assumes "strict_neq v (value_field this)"
  shows "set_value doc v this = render doc (this\<lparr>value_field := v\<rparr>)"
    and "get_value (snd (set_value doc v this)) = v"
    and "render_calls (snd (set_value doc v this)) = render_calls this + 1"
proof -
  show e: "set_value doc v this = render doc (this\<lparr>value_field := v\<rparr>)"
    using assms by (simp add: set_value_def)
  obtain r t where h: "render doc (this\<lparr>value_field := v\<rparr>) = (r, t)"
    by (cases "render doc (this\<lparr>value_field := v\<rparr>)")
  from render_result(1,2) [OF h] e h
  show "get_value (snd (set_value doc v this)) = v"
    and "render_calls (snd (set_value doc v this)) = render_calls this + 1"
    by (simp_all add: get_value_def)
qed

section \<open>The counters of an instance\<close>

lemma render_counted: "counted doc s \<Longrightarrow> counted doc (snd (render doc s))"
proof -
  assume c: "counted doc s"
  obtain r t where h: "render doc s = (r, t)" by (cases "render doc s")
  note f = render_result [OF h]
  show ?thesis using c f h by (auto simp: counted_def split: if_splits)
qed

lemma set_value_counted: "counted doc s \<Longrightarrow> counted doc (snd (set_value doc v s))"
proof -
  assume c: "counted doc s"
  have "counted doc (s\<lparr>value_field := v\<rparr>)" using c by (auto simp: counted_def split: if_splits)
  from render_counted [OF this] c show ?thesis by (cases "strict_neq v (value_field s)") (simp_all add: set_value_def)
qed

lemma run_listener_counted: "counted doc s \<Longrightarrow> counted doc (snd (run_listener doc l s))"
  by (cases l) (simp_all add: set_value_counted)

lemma run_listeners_counted: "counted doc s \<Longrightarrow> counted doc (snd (run_listeners doc ls s))"
proof (induction ls arbitrary: s)
  case Nil
  then show ?case by simp
next
  case (Cons l ls)
  obtain r t where h: "run_listener doc l s = (r, t)" by (cases "run_listener doc l s")
  have "counted doc t" using run_listener_counted [OF Cons.prems, of l] h by simp
  from Cons.IH [OF this] h show ?case by (auto split: prod.splits)
qed

lemma dispatchEvent_counted:
  "counted doc s \<Longrightarrow> counted doc (snd (dispatchEvent doc target ty s))"
  by (simp add: dispatchEvent_def run_listeners_counted split: option.splits)

lemma text_entry_counted: "counted doc s \<Longrightarrow> counted doc (snd (text_entry doc entered s))"
proof (cases "shadowRoot s")
  case None
  assume "counted doc s"
  with None show ?thesis by (simp add: text_entry_def)
next
  case (Some root)
  assume c: "counted doc s"
  let ?s = "s\<lparr>shadowRoot := Some (update_first ''input'' (\<lambda>e. e\<lparr>elem_value := entered\<rparr>) root)\<rparr>"
  have "counted doc ?s" using c Some by (auto simp: counted_def split: if_splits)
  from dispatchEvent_counted [OF this] Some show ?thesis by (simp add: text_entry_def)
qed

lemma step_counted: "counted doc s \<Longrightarrow> counted doc (step doc ev s)"
  by (cases ev)
    (simp_all add: connectedCallback_def attributeChangedCallback_def render_counted
      set_value_counted text_entry_counted dispatchEvent_counted)

lemma fold_step_counted: "counted doc s \<Longrightarrow> counted doc (fold (step doc) evs s)"
  by (induction evs arbitrary: s) (simp_all add: step_counted)

lemma run_counted: "counted doc (run doc evs constructor)"
  unfolding run_def by (rule fold_step_counted) (simp add: counted_def constructor_def)

lemma render_times_counted: "counted doc s \<Longrightarrow> counted doc (render_times doc n s)"
  by (induction n arbitrary: s) (simp_all add: render_counted)

lemma render_times_shadowRoot:
  "1 \<le> n \<Longrightarrow> shadowRoot (render_times doc n s) \<noteq> None"
proof (induction n arbitrary: s)
  case 0
  then show ?case by simp
next
  case (Suc n)
  obtain r t where h: "render doc s = (r, t)" by (cases "render doc s")
  show ?case
  proof (cases n)
    case 0
    with render_result(3) [OF h] h show ?thesis by simp
  next
    case (Suc m)
    with Suc.IH [of t] h show ?thesis by simp
  qed
qed

section \<open>The tutorial's page\<close>

lemma projection_rendered:
  "shadowRoot this = Some (rendered_tree x) \<Longrightarrow>
   projection this = (None, this\<lparr>shadowRoot := Some (rendered_tree (ToString (value_field this))),
      projections := projections this + 1\<rparr>)"
  by (simp add: projection_def getElementById_def rendered_tree_def get_value_def)

lemma render_rendered:
  "shadowRoot this = Some (rendered_tree x) \<Longrightarrow>
   render index_html this = (None, this\<lparr>shadowRoot := Some (rendered_tree (ToString (value_field this))),
      render_calls := render_calls this + 1, projections := projections this + 1\<rparr>)"
  by (simp add: render_def render_first_def renderHelper_present projection_rendered)

lemma render_first_absent:
  "shadowRoot s = None \<Longrightarrow> render_first index_html s =
     (None, s\<lparr>shadowRoot := Some (rendered_tree ''''),
        attachShadow_calls := attachShadow_calls s + 1,
        componentFirstRender_calls := componentFirstRender_calls s + 1\<rparr>)"
  by (simp add: render_first_def renderHelper_def attachShadow_def
    SpinBox_get_def index_html_def spinBoxTemplate_def appendChild_def importNode_def
    componentFirstRender_def addEventListener_def getElementById_def rendered_tree_def)

lemma render_absent:
  "shadowRoot s = None \<Longrightarrow> render index_html s =
     (None, s\<lparr>shadowRoot := Some (rendered_tree (ToString (value_field s))),
        attachShadow_calls := attachShadow_calls s + 1,
        componentFirstRender_calls := componentFirstRender_calls s + 1,
        render_calls := render_calls s + 1, projections := projections s + 1\<rparr>)"
  by (simp add: render_def render_first_absent projection_rendered)

lemma render_shaped: "shaped s \<Longrightarrow> shaped (snd (render index_html s))"
  by (cases "shadowRoot s") (auto simp: shaped_def render_absent render_rendered)

lemma set_value_shaped: "shaped s \<Longrightarrow> shaped (snd (set_value index_html v s))"
proof -
  assume "shaped s"
  then have "shaped (s\<lparr>value_field := v\<rparr>)" by (simp add: shaped_def)
  from render_shaped [OF this] \<open>shaped s\<close> show ?thesis
    by (cases "strict_neq v (value_field s)") (simp_all add: set_value_def)
qed

lemma run_listener_shaped: "shaped s \<Longrightarrow> shaped (snd (run_listener index_html l s))"
  by (cases l) (simp_all add: set_value_shaped)

lemma run_listeners_shaped: "shaped s \<Longrightarrow> shaped (snd (run_listeners index_html ls s))"
proof (induction ls arbitrary: s)
  case Nil
  then show ?case by simp
next
  case (Cons l ls)
  obtain r t where h: "run_listener index_html l s = (r, t)"
    by (cases "run_listener index_html l s")
  have "shaped t" using run_listener_shaped [OF Cons.prems, of l] h by simp
  from Cons.IH [OF this] h show ?case by (auto split: prod.splits)
qed

lemma dispatchEvent_shaped:
  "shaped s \<Longrightarrow> shaped (snd (dispatchEvent index_html target ty s))"
  by (simp add: dispatchEvent_def run_listeners_shaped split: option.splits)

lemma text_entry_shaped: "shaped s \<Longrightarrow> shaped (snd (text_entry index_html entered s))"
proof (cases "shadowRoot s")
  case None
  assume "shaped s"
  with None show ?thesis by (simp add: text_entry_def)
next
  case (Some root)
  assume c: "shaped s"
  let ?s = "s\<lparr>shadowRoot := Some (update_first ''input'' (\<lambda>e. e\<lparr>elem_value := entered\<rparr>) root)\<rparr>"
  from c Some obtain x where "root = rendered_tree x" by (auto simp: shaped_def)
  then have "shaped ?s" by (auto simp: shaped_def rendered_tree_def)
  from dispatchEvent_shaped [OF this] Some show ?thesis by (simp add: text_entry_def)
qed

lemma step_shaped: "shaped s \<Longrightarrow> shaped (step index_html ev s)"
  by (cases ev)
    (simp_all add: connectedCallback_def attributeChangedCallback_def render_shaped
      set_value_shaped text_entry_shaped dispatchEvent_shaped)

lemma fold_step_shaped: "shaped s \<Longrightarrow> shaped (fold (step index_html) evs s)"
  by (induction evs arbitrary: s) (simp_all add: step_shaped)

lemma run_shaped: "shaped (run index_html evs constructor)"
  unfolding run_def by (rule fold_step_shaped) (simp add: shaped_def constructor_def)

lemma render_times_shaped: "shaped s \<Longrightarrow> shaped (render_times index_html n s)"
  by (induction n arbitrary: s) (simp_all add: render_shaped)

lemma rendered_tree_ids: "map elem_id (rendered_tree shown) = map elem_id spinBoxTemplate"
  by (simp add: rendered_tree_def spinBoxTemplate_def)

lemma render_constructor:
  "render index_html constructor =
     (None, \<lparr>shadowRoot = Some (rendered_tree ''0''), attachShadow_calls = 1,
        value_field = Num 0, render_calls = 1, componentFirstRender_calls = 1, projections = 1\<rparr>)"
  by (simp add: constructor_def render_absent ToString_def digits.simps)

lemmas eval_defs =
  run_def connectedCallback_def attributeChangedCallback_def attr_string_def set_value_def
  strict_neq_def constructor_def render_def render_first_def renderHelper_def attachShadow_def
  SpinBox_get_def index_html_def spinBoxTemplate_def appendChild_def importNode_def
  componentFirstRender_def addEventListener_def getElementById_def projection_def get_value_def
  ToString_def digits.simps dispatchEvent_def text_entry_def rendered_tree_def

lemma run_example:
  "run index_html [AttributeChanged ''value'' None (Some ''7''), Connected, MouseDown ''upButton'',
      TextEntry ''12'', Render] constructor =
   \<lparr>shadowRoot = Some (rendered_tree ''8''), attachShadow_calls = 1,
        value_field = Num 8, render_calls = 4, componentFirstRender_calls = 1, projections = 4\<rparr>"
  by (simp add: eval_defs parseInt_7)

section \<open>The two versions of the mixin\<close>

lemma renderHelper_versions:
  "g6 (this\<lparr>shadowRoot := Some [], attachShadow_calls := attachShadow_calls this + 1\<rparr>)
      (PropName ''template'')
    = g7 (this\<lparr>shadowRoot := Some [], attachShadow_calls := attachShadow_calls this + 1\<rparr>) template
   \<Longrightarrow> renderHelper g6 this = renderHelper_007 g7 this"
  by (simp add: renderHelper_def renderHelper_007_def attachShadow_def Let_def split: option.splits)

section \<open>The claims\<close>

text \<open>
  Claim C1, as stated: on a freshly constructed spin box, \<open>attributeChangedCallback\<close> with
  the name \<open>value\<close> and the text \<open>abc\<close> leaves the value at 0, runs no projection and creates
  no shadow root. The code does otherwise: \<open>parseInt\<close> yields \<open>NaN\<close>, the setter sees
  \<open>NaN !== 0\<close>, stores it and renders.
\<close>

theorem attribute_abc_not_ignored:
  "\<not> (value_field
          (snd (attributeChangedCallback index_html ''value'' None (Some ''abc'') constructor))
        = Num 0
      \<and> projections
          (snd (attributeChangedCallback index_html ''value'' None (Some ''abc'') constructor))
        = 0
      \<and> shadowRoot
          (snd (attributeChangedCallback index_html ''value'' None (Some ''abc'') constructor))
        = None)"
  by (simp add: attributeChangedCallback_def attr_string_def parseInt_abc set_value_def
      strict_neq_def constructor_def render_absent)

text \<open>
  Claim C1, amended: on a freshly constructed spin box of the tutorial's page,
  \<open>attributeChangedCallback\<close> with the name \<open>value\<close> and the text \<open>abc\<close> sets the value to
  \<open>NaN\<close> and runs one render: the shadow root is created, the listeners are wired and the
  input element shows \<open>NaN\<close>.
\<close>

theorem attribute_abc_sets_NaN:
  "attributeChangedCallback index_html ''value'' oldValue (Some ''abc'') constructor =
     (None, \<lparr>shadowRoot = Some (rendered_tree ''NaN''), attachShadow_calls = 1,
        value_field = NaN, render_calls = 1, componentFirstRender_calls = 1, projections = 1\<rparr>)"
  by (simp add: attributeChangedCallback_def attr_string_def parseInt_abc set_value_def
      strict_neq_def constructor_def render_absent ToString_def)

text \<open>
  Claim C2: for every instance (the constructor followed by any events) and every
  \<open>N \<ge> 1\<close>, after \<open>N\<close> calls of \<open>render\<close> exactly one shadow root has been created.
  \<open>renderHelper\<close> creates the shadow root only when there is none, and then fills it with
  a copy of the content of the host's template and returns \<open>true\<close>; when there is a shadow
  root it changes nothing and returns \<open>false\<close>, in particular after a call that returned
  \<open>true\<close>. On the tutorial's page the shadow root after the \<open>N\<close> calls holds the elements
  of the template.
\<close>

theorem materialize_once:
  "(1 \<le> N \<longrightarrow> attachShadow_calls (render_times doc N (run doc evs constructor)) = 1)
   \<and> (shadowRoot this1 = None \<longrightarrow>
        attachShadow_calls (snd (renderHelper get this1)) = attachShadow_calls this1 + 1
        \<and> shadowRoot (snd (renderHelper get this1)) \<noteq> None)
   \<and> (shadowRoot this2 \<noteq> None \<longrightarrow> renderHelper get this2 = (Inr False, this2))
   \<and> (renderHelper get this3 = (Inr True, t) \<longrightarrow> renderHelper get t = (Inr False, t))
   \<and> (shadowRoot this4 = None
        \<and> get (this4\<lparr>shadowRoot := Some [], attachShadow_calls := attachShadow_calls this4 + 1\<rparr>)
            (PropName ''template'') = Template content
        \<longrightarrow> renderHelper get this4 =
             (Inr True, this4\<lparr>shadowRoot := Some (importNode content),
                attachShadow_calls := attachShadow_calls this4 + 1\<rparr>))
   \<and> (1 \<le> M \<longrightarrow>
        (\<exists>shown. shadowRoot (render_times index_html M (run index_html evs' constructor))
                   = Some (rendered_tree shown)
                 \<and> map elem_id (rendered_tree shown) = map elem_id spinBoxTemplate))"
proof (intro conjI impI)
  assume n: "1 \<le> N"
  have "counted doc (render_times doc N (run doc evs constructor))"
    by (rule render_times_counted) (rule run_counted)
  with render_times_shadowRoot [OF n] show
    "attachShadow_calls (render_times doc N (run doc evs constructor)) = 1"
    by (simp add: counted_def)
next
  assume a: "shadowRoot this1 = None"
  obtain r u where h: "renderHelper get this1 = (r, u)" by (cases "renderHelper get this1")
  from renderHelper_absent(1,2) [OF a h] h
  show "attachShadow_calls (snd (renderHelper get this1)) = attachShadow_calls this1 + 1"
    and "shadowRoot (snd (renderHelper get this1)) \<noteq> None"
    by simp_all
next
  assume "shadowRoot this2 \<noteq> None"
  then show "renderHelper get this2 = (Inr False, this2)"
    by (auto simp: renderHelper_present)
next
  assume h: "renderHelper get this3 = (Inr True, t)"
  have "shadowRoot t \<noteq> None"
  proof (cases "shadowRoot this3")
    case None
    from renderHelper_absent(1) [OF None h] show ?thesis .
  next
    case (Some r)
    with h show ?thesis by (simp add: renderHelper_present)
  qed
  then show "renderHelper get t = (Inr False, t)"
    by (auto simp: renderHelper_present)
next
  assume "shadowRoot this4 = None
        \<and> get (this4\<lparr>shadowRoot := Some [], attachShadow_calls := attachShadow_calls this4 + 1\<rparr>)
            (PropName ''template'') = Template content"
  then show "renderHelper get this4 =
             (Inr True, this4\<lparr>shadowRoot := Some (importNode content),
                attachShadow_calls := attachShadow_calls this4 + 1\<rparr>)"
    by (simp add: renderHelper_populates)
next
  assume m: "1 \<le> M"
  let ?s = "render_times index_html M (run index_html evs' constructor)"
  have "shaped ?s" by (rule render_times_shaped) (rule run_shaped)
  with render_times_shadowRoot [OF m, of index_html "run index_html evs' constructor"]
  obtain shown where "shadowRoot ?s = Some (rendered_tree shown)"
    by (auto simp: shaped_def)
  then show "\<exists>shown. shadowRoot ?s = Some (rendered_tree shown)
                 \<and> map elem_id (rendered_tree shown) = map elem_id spinBoxTemplate"
    by (auto simp: rendered_tree_ids)
qed

theorem materialize_once_witness:
  "attachShadow_calls (render_times index_html 3 (run index_html [] constructor)) = 1
   \<and> attachShadow_calls (snd (renderHelper (SpinBox_get index_html) constructor))
       = attachShadow_calls constructor + 1
   \<and> shadowRoot (snd (renderHelper (SpinBox_get index_html) constructor)) \<noteq> None
   \<and> renderHelper (SpinBox_get index_html) (snd (render index_html constructor))
       = (Inr False, snd (render index_html constructor))
   \<and> renderHelper (SpinBox_get index_html) (snd (renderHelper (SpinBox_get index_html) constructor))
       = (Inr False, snd (renderHelper (SpinBox_get index_html) constructor))
   \<and> renderHelper (SpinBox_get index_html) constructor
       = (Inr True, constructor\<lparr>shadowRoot := Some (importNode spinBoxTemplate),
            attachShadow_calls := attachShadow_calls constructor + 1\<rparr>)
   \<and> (\<exists>shown. shadowRoot (render_times index_html 3 (run index_html [] constructor))
                 = Some (rendered_tree shown)
               \<and> map elem_id (rendered_tree shown) = map elem_id spinBoxTemplate)"
proof -
  have a: "(1::nat) \<le> 3" by simp
  have b: "shadowRoot constructor = None" by (simp add: constructor_def)
  have c: "shadowRoot (snd (render index_html constructor)) \<noteq> None"
    by (simp add: render_constructor)
  have d: "renderHelper (SpinBox_get index_html) constructor =
      (Inr True, snd (renderHelper (SpinBox_get index_html) constructor))"
    by (simp add: renderHelper_def constructor_def attachShadow_def SpinBox_get_def index_html_def)
  have e: "SpinBox_get index_html
      (constructor\<lparr>shadowRoot := Some [], attachShadow_calls := attachShadow_calls constructor + 1\<rparr>)
      (PropName ''template'') = Template spinBoxTemplate"
    by (simp add: SpinBox_get_def index_html_def)
  from materialize_once [of 3 index_html "[]" constructor "SpinBox_get index_html"
      "snd (render index_html constructor)" constructor
      "snd (renderHelper (SpinBox_get index_html) constructor)" constructor spinBoxTemplate
      3 "[]"] a b c d e
  show ?thesis by blast
qed

text \<open>
  Claim C3: whatever the events of an instance (attachment, attribute changes, writes of
  the value, direct renders, text entries, button presses), \<open>componentFirstRender\<close> never
  runs twice; on a page that has the template it has run exactly once as soon as \<open>render\<close>
  has been called at all; and on the tutorial's page every interactive element then carries
  exactly its one listener.
\<close>

theorem single_wiring:
  "componentFirstRender_calls (run doc evs constructor) \<le> 1
   \<and> (doc ''spinBoxTemplate'' = Template content \<and> 1 \<le> render_calls (run doc evs constructor)
        \<longrightarrow> componentFirstRender_calls (run doc evs constructor) = 1)
   \<and> (1 \<le> render_calls (run index_html evs' constructor)
        \<longrightarrow> (\<exists>shown. shadowRoot (run index_html evs' constructor) = Some (rendered_tree shown)))"
proof (intro conjI impI)
  show "componentFirstRender_calls (run doc evs constructor) \<le> 1"
    using run_counted [of doc evs]
    by (auto simp: counted_def wirings_def split: if_splits jsref.splits)
next
  assume "doc ''spinBoxTemplate'' = Template content \<and> 1 \<le> render_calls (run doc evs constructor)"
  then show "componentFirstRender_calls (run doc evs constructor) = 1"
    using run_counted [of doc evs]
    by (auto simp: counted_def wirings_def split: if_splits)
next
  assume "1 \<le> render_calls (run index_html evs' constructor)"
  then have "shadowRoot (run index_html evs' constructor) \<noteq> None"
    using run_counted [of index_html evs'] by (auto simp: counted_def split: if_splits)
  with run_shaped [of evs']
  show "\<exists>shown. shadowRoot (run index_html evs' constructor) = Some (rendered_tree shown)"
    by (auto simp: shaped_def)
qed

theorem single_wiring_witness:
  "componentFirstRender_calls (run index_html [AttributeChanged ''value'' None (Some ''7''),
      Connected, MouseDown ''upButton'', TextEntry ''12'', Render] constructor) = 1
   \<and> (\<exists>shown. shadowRoot (run index_html [AttributeChanged ''value'' None (Some ''7''),
      Connected, MouseDown ''upButton'', TextEntry ''12'', Render] constructor)
        = Some (rendered_tree shown))"
proof -
  let ?evs = "[AttributeChanged ''value'' None (Some ''7''),
      Connected, MouseDown ''upButton'', TextEntry ''12'', Render]"
  have a: "index_html ''spinBoxTemplate'' = Template spinBoxTemplate"
    by (simp add: index_html_def)
  have b: "1 \<le> render_calls (run index_html ?evs constructor)"
    by (simp add: run_example)
  from single_wiring [of index_html ?evs spinBoxTemplate ?evs] a b show ?thesis by blast
qed

text \<open>
  Claim C4: when the new value is equal (\<open>===\<close>) to the current one the setter changes
  nothing, so no render and no projection happens; otherwise it stores the new value and
  calls \<open>render\<close>, and reading the value afterwards gives the new value. For an integer the
  comparison \<open>===\<close> is plain equality.
\<close>

theorem setter_change_detection:
  "(strict_eq v1 (get_value this1) \<longrightarrow> set_value doc v1 this1 = (None, this1))
   \<and> (\<not> strict_eq v2 (get_value this2) \<longrightarrow>
        set_value doc v2 this2 = render doc (this2\<lparr>value_field := v2\<rparr>)
        \<and> get_value (snd (set_value doc v2 this2)) = v2
        \<and> render_calls (snd (set_value doc v2 this2)) = render_calls this2 + 1)
   \<and> strict_eq (Num n) w = (w = Num n)"
proof (intro conjI impI)
  assume "strict_eq v1 (get_value this1)"
  then show "set_value doc v1 this1 = (None, this1)"
    by (simp add: set_value_def strict_neq_def get_value_def)
next
  assume "\<not> strict_eq v2 (get_value this2)"
  then have d: "strict_neq v2 (value_field this2)"
    by (simp add: strict_neq_def get_value_def)
  from set_value_changed [OF d]
  show "set_value doc v2 this2 = render doc (this2\<lparr>value_field := v2\<rparr>)"
    and "get_value (snd (set_value doc v2 this2)) = v2"
    and "render_calls (snd (set_value doc v2 this2)) = render_calls this2 + 1"
    by simp_all
next
  show "strict_eq (Num n) w = (w = Num n)" by (rule strict_eq_Num)
qed

theorem setter_change_detection_witness:
  "set_value index_html (Num 0) constructor = (None, constructor)
   \<and> get_value (snd (set_value index_html (Num 5) constructor)) = Num 5
   \<and> render_calls (snd (set_value index_html (Num 5) constructor)) = render_calls constructor + 1"
proof -
  have a: "strict_eq (Num 0) (get_value constructor)"
    by (simp add: get_value_def constructor_def)
  have b: "\<not> strict_eq (Num 5) (get_value constructor)"
    by (simp add: get_value_def constructor_def)
  from setter_change_detection [of "Num 0" constructor index_html "Num 5" constructor 0
      "Num 0"] a b
  show ?thesis by blast
qed

text \<open>
  Claim C5: in every call of \<open>render\<close>, when the projection is reached the shadow root
  exists: \<open>renderHelper\<close>, whenever it returns, leaves a shadow root, the one-time hook
  keeps it, and \<open>render\<close> never fails on an absent shadow root.
\<close>

theorem projection_has_shadowRoot:
  "(render_first doc this = (None, t) \<longrightarrow> shadowRoot t \<noteq> None)
   \<and> fst (render doc this) \<noteq> Some (TypeError ''shadowRoot is null'')
   \<and> (fst (renderHelper (SpinBox_get doc) this') = Inr b
        \<longrightarrow> shadowRoot (snd (renderHelper (SpinBox_get doc) this')) \<noteq> None)"
proof (intro conjI impI)
  assume "render_first doc this = (None, t)"
  from render_first_result(4) [OF this] show "shadowRoot t \<noteq> None" .
next
  obtain r u where h: "render doc this = (r, u)" by (cases "render doc this")
  from render_result(4) [OF h] h
  show "fst (render doc this) \<noteq> Some (TypeError ''shadowRoot is null'')" by simp
next
  obtain r u where h: "renderHelper (SpinBox_get doc) this' = (r, u)"
    by (cases "renderHelper (SpinBox_get doc) this'")
  show "shadowRoot (snd (renderHelper (SpinBox_get doc) this')) \<noteq> None"
  proof (cases "shadowRoot this'")
    case None
    from renderHelper_absent(1) [OF None h] h show ?thesis by simp
  next
    case (Some root)
    then show ?thesis by (simp add: renderHelper_present)
  qed
qed

theorem projection_has_shadowRoot_witness:
  "shadowRoot (snd (render_first index_html constructor)) \<noteq> None
   \<and> shadowRoot (snd (renderHelper (SpinBox_get index_html) constructor)) \<noteq> None"
proof -
  have a: "render_first index_html constructor = (None, snd (render_first index_html constructor))"
    by (simp add: render_first_absent constructor_def)
  have b: "fst (renderHelper (SpinBox_get index_html) constructor) = Inr True"
    by (simp add: renderHelper_def constructor_def attachShadow_def SpinBox_get_def index_html_def)
  from projection_has_shadowRoot [of index_html constructor
      "snd (render_first index_html constructor)" constructor True] a b
  show ?thesis by blast
qed

text \<open>
  Claim C6: a fresh spin box that is attached ends in the same state as one that first
  receives the attribute \<open>value\<close> with the text \<open>0\<close> and is then attached; on the tutorial's
  page this state has the value 0, the input element showing \<open>0\<close>, one shadow root created
  and the listeners wired once.
\<close>

theorem convergent_entry_points:
  "connectedCallback doc
       (snd (attributeChangedCallback doc ''value'' oldValue (Some ''0'') constructor))
     = connectedCallback doc constructor
   \<and> connectedCallback index_html constructor =
       (None, \<lparr>shadowRoot = Some (rendered_tree ''0''), attachShadow_calls = 1,
          value_field = Num 0, render_calls = 1, componentFirstRender_calls = 1,
          projections = 1\<rparr>)
   \<and> display (snd (connectedCallback index_html constructor)) = Some ''0''"
  by (simp add: attributeChangedCallback_def attr_string_def parseInt_0 set_value_def
      strict_neq_def connectedCallback_def render_constructor display_def getElementById_def)
    (simp add: constructor_def rendered_tree_def)

text \<open>
  Claim C7: on a fresh spin box that was never attached, \<open>attributeChangedCallback\<close> with
  the name \<open>value\<close> and the text \<open>7\<close> makes the value 7 and the input element show \<open>7\<close>; the
  shadow root is created by the render of the setter.
\<close>

theorem attribute_7_renders:
  "attributeChangedCallback index_html ''value'' oldValue (Some ''7'') constructor =
     (None, \<lparr>shadowRoot = Some (rendered_tree ''7''), attachShadow_calls = 1,
        value_field = Num 7, render_calls = 1, componentFirstRender_calls = 1, projections = 1\<rparr>)
   \<and> get_value
        (snd (attributeChangedCallback index_html ''value'' oldValue (Some ''7'') constructor))
       = Num 7
   \<and> display
        (snd (attributeChangedCallback index_html ''value'' oldValue (Some ''7'') constructor))
       = Some ''7''
   \<and> shadowRoot constructor = None"
  by (simp add: attributeChangedCallback_def attr_string_def parseInt_7 set_value_def
      strict_neq_def constructor_def render_absent ToString_def digits.simps display_def
      getElementById_def get_value_def)
    (simp add: rendered_tree_def)

text \<open>
  Claim C8 says that a text entry, once the listeners are wired, assigns the entered text
  to the value. The listener names \<open>inputElem\<close>, which is bound nowhere, instead of the
  constant \<open>inputElement\<close>: after attaching a fresh spin box and entering \<open>5\<close>, the listener
  throws a \<open>ReferenceError\<close>, the input element shows \<open>5\<close> and the value is still 0.
\<close>

theorem text_entry_throws:
  "text_entry index_html ''5'' (snd (connectedCallback index_html constructor)) =
     ([Some (ReferenceError ''inputElem is not defined'')],
      \<lparr>shadowRoot = Some (rendered_tree ''5''), attachShadow_calls = 1,
        value_field = Num 0, render_calls = 1, componentFirstRender_calls = 1, projections = 1\<rparr>)"
  by (simp add: connectedCallback_def render_constructor text_entry_def dispatchEvent_def
      getElementById_def rendered_tree_def)

text \<open>
  Claim C9: the setter validates nothing and compares with \<open>!==\<close>. \<open>NaN\<close> differs from every
  value, itself included, so a write of \<open>NaN\<close> is always stored and always renders, also
  when the value is \<open>NaN\<close> already and also when it comes from a non-numeric attribute;
  and any value that differs under \<open>!==\<close> is stored as it is.
\<close>

theorem setter_accepts_NaN:
  "strict_neq NaN w
   \<and> set_value doc NaN this = render doc (this\<lparr>value_field := NaN\<rparr>)
   \<and> get_value (snd (set_value doc NaN this)) = NaN
   \<and> render_calls (snd (set_value doc NaN this)) = render_calls this + 1
   \<and> render_calls (snd (attributeChangedCallback doc ''value'' oldValue (Some ''abc'') this))
       = render_calls this + 1
   \<and> (strict_neq v (get_value this') \<longrightarrow> get_value (snd (set_value doc v this')) = v)"
proof -
  have n: "strict_neq NaN x" for x by (simp add: strict_neq_def)
  note s = set_value_changed [of NaN this doc, OF n]
  have "strict_neq v (get_value this') \<longrightarrow> get_value (snd (set_value doc v this')) = v"
    using set_value_changed(2) [of v this' doc] by (simp add: get_value_def)
  with n s show ?thesis
    by (simp add: attributeChangedCallback_def attr_string_def parseInt_abc)
qed

theorem setter_accepts_NaN_witness:
  "get_value (snd (set_value index_html NaN (constructor\<lparr>value_field := NaN\<rparr>))) = NaN
   \<and> render_calls (snd (set_value index_html NaN (constructor\<lparr>value_field := NaN\<rparr>)))
       = render_calls (constructor\<lparr>value_field := NaN\<rparr>) + 1
   \<and> get_value (snd (set_value index_html (Num 3) constructor)) = Num 3"
proof -
  have a: "strict_neq (Num 3) (get_value constructor)"
    by (simp add: strict_neq_def get_value_def constructor_def)
  from setter_accepts_NaN [of NaN index_html "constructor\<lparr>value_field := NaN\<rparr>" None
      "Num 3" constructor] a
  show ?thesis by blast
qed

text \<open>
  Claim C10: the \<open>renderHelper\<close> of version 006 and that of version 007 behave alike. When
  the class of the host yields under the name \<open>template\<close> what it yields under the symbol
  \<open>template\<close>, one call and every sequence of calls return the same results and leave the
  same host.
\<close>

theorem renderHelper_versions_agree:
  assumes "\<And>h. g6 h (PropName ''template'') = g7 h template"
  shows "renderHelper g6 this = renderHelper_007 g7 this
    \<and> calls (renderHelper g6) n this = calls (renderHelper_007 g7) n this"
proof -
  have e: "renderHelper g6 h = renderHelper_007 g7 h" for h
    by (rule renderHelper_versions) (rule assms)
  have "calls (renderHelper g6) n this = calls (renderHelper_007 g7) n this"
    by (induction n arbitrary: this) (simp_all add: e)
  with e show ?thesis by simp
qed

theorem renderHelper_versions_agree_witness:
  "renderHelper (SpinBox_get index_html) constructor
     = renderHelper_007 (SpinBox_get_007 index_html) constructor
   \<and> calls (renderHelper (SpinBox_get index_html)) 3 constructor
     = calls (renderHelper_007 (SpinBox_get_007 index_html)) 3 constructor
   \<and> map fst [renderHelper_007 (SpinBox_get_007 index_html) constructor] = [Inr True]"
proof -
  have a: "SpinBox_get index_html h (PropName ''template'') = SpinBox_get_007 index_html h template"
    for h by (simp add: SpinBox_get_def SpinBox_get_007_def)
  have b: "fst (renderHelper_007 (SpinBox_get_007 index_html) constructor) = Inr True"
    by (simp add: renderHelper_007_def constructor_def attachShadow_def SpinBox_get_007_def
        index_html_def)
  from renderHelper_versions_agree [of "SpinBox_get index_html" "SpinBox_get_007 index_html"
      constructor 3, OF a] b
  show ?thesis by simp
qed

end
